theory Spec2Isabelle
  imports Main "HOL-Library.Monad_Syntax"
begin

unbundle bit_operations_syntax

section \<open>Python values\<close>

text \<open>
  Python integers are unbounded: they are modelled as \<open>int\<close>, on which \<open>AND\<close>,
  \<open>push_bit\<close> and \<open>drop_bit\<close> are Python's bitwise and and its two shifts, and
  \<open>mod\<close> is Python's \<open>%\<close>. A raised exception (IndexError, ValueError, AttributeError) is the value
  \<open>None\<close> of an option type: the emulator never catches one, so the call is lost whole.
\<close>

type_synonym rgb = "int \<times> int \<times> int"

definition py_index :: "'a list \<Rightarrow> int \<Rightarrow> 'a option" where
  \<comment> \<open>\<open>xs[i]\<close>: a negative index counts from the end, out of range raises IndexError.\<close>
  "py_index xs i =
     (let n = int (length xs); j = (if i < 0 then n + i else i)
      in if 0 \<le> j \<and> j < n then Some (xs ! nat j) else None)"

definition py_store :: "'a list \<Rightarrow> int \<Rightarrow> 'a \<Rightarrow> 'a list option" where
  \<comment> \<open>\<open>xs[i] = v\<close> on a list.\<close>
  "py_store xs i v =
     (let n = int (length xs); j = (if i < 0 then n + i else i)
      in if 0 \<le> j \<and> j < n then Some (xs[nat j := v]) else None)"

definition bytearray_store :: "int list \<Rightarrow> int \<Rightarrow> int \<Rightarrow> int list option" where
  \<comment> \<open>\<open>b[i] = v\<close> on a bytearray: the value must be in \<open>range(256)\<close> (ValueError).\<close>
  "bytearray_store xs i v = (if 0 \<le> v \<and> v < 256 then py_store xs i v else None)"

definition int_div :: "int \<Rightarrow> int \<Rightarrow> int" where
  \<comment> \<open>\<open>int(a / b)\<close>: true division, then truncation towards zero (exact for the
      magnitudes of line and tile numbers).\<close>
  "int_div a b = (if (a < 0) = (b < 0) then \<bar>a\<bar> div \<bar>b\<bar> else - (\<bar>a\<bar> div \<bar>b\<bar>))"

subsection \<open>bitwise.py\<close>

definition bit_high :: "int \<Rightarrow> nat \<Rightarrow> bool" where
  "bit_high v b = (v AND push_bit b 1 > 0)"

definition bit_low :: "int \<Rightarrow> nat \<Rightarrow> bool" where
  "bit_low v b = (v AND push_bit b 1 = 0)"

section \<open>The PPU state\<close>

text \<open>
  The class \<open>NESVRAM\<close> (memory.py) is not part of the sources at hand. The PPU only calls
  its \<open>read\<close> and \<open>write\<close> and reads four of its constants, so the video memory is a
  parameter: a state of any type \<open>'v\<close> together with a view of it. \<open>read\<close> is taken to
  return a value without changing the memory.
\<close>

record 'v vram_view =
  vread :: "'v \<Rightarrow> int \<Rightarrow> int"
  vwrite :: "'v \<Rightarrow> int \<Rightarrow> int \<Rightarrow> 'v"
  PALETTE_START :: int
  NAMETABLE_START :: int
  NAMETABLE_LENGTH_BYTES :: int
  ATTRIBUTE_TABLE_OFFSET :: int

text \<open>
  The register indices 0 to 7 of the class (\<open>PPU_CTRL = 0\<close>, ..., \<open>PPU_DATA = 7\<close>).
\<close>

datatype register =
  PPU_CTRL | PPU_MASK | PPU_STATUS | OAM_ADDR | OAM_DATA | PPU_SCROLL | PPU_ADDR | PPU_DATA

text \<open>
  The attributes of \<open>NESPPU\<close>, without the leading underscore of the private ones.
  \<open>active_sprites\<close> is \<open>None\<close> until \<open>_prefetch_active_sprites\<close> first creates the
  attribute. The screen is the list of the pixels written with \<open>write_at\<close>, the
  interrupt listener the number of calls of \<open>raise_nmi\<close>. Attributes that are never read
  (\<open>_oam\<close>, \<open>_t\<close>, \<open>_bkg_px\<close>, \<open>oam_data\<close>, \<open>time_at_new_frame\<close>) are left out;
  \<open>rgb_palette\<close> and \<open>transparent_color\<close> are constants below.
\<close>

record 'v NESPPU =
  ppu_ctrl :: int
  ppu_mask :: int
  oam_addr :: int
  oam_addr_held :: int
  ppu_scroll :: "int list"
  ppu_addr :: int
  ppu_byte_latch :: int
  ppu_data_buffer :: int
  io_latch :: int
  palette :: "rgb list list"
  pattern_lo :: "int list"
  pattern_hi :: "int list"
  sprite_pattern :: "rgb option list list"
  sprite_bkg_priority :: "bool list"
  active_sprites :: "int list option"
  line :: int
  pixel :: int
  row :: int
  col :: int
  tN :: int
  tX :: int
  tY :: int
  in_vblank :: bool
  sprite_zero_hit :: bool
  sprite_overflow :: bool
  cycles_since_reset :: int
  cycles_since_frame :: int
  frames_since_reset :: int
  vram :: 'v
  oam :: "int list"
  palette_cache :: "rgb list option list list"
  screen :: "(int \<times> int \<times> rgb) list"
  nmi_count :: nat

definition DEFAULT_NES_PALETTE :: "rgb list" where
  "DEFAULT_NES_PALETTE = [
    ( 82,  82,  82), (  1,  26,  81), ( 15,  15, 101), ( 35,   6,  99),
    ( 54,   3,  75), ( 64,   4,  38), ( 63,   9,   4), ( 50,  19,   0),
    ( 31,  32,   0), ( 11,  42,   0), (  0,  47,   0), (  0,  46,  10),
    (  0,  38,  45), (  0,   0,   0), (  0,   0,   0), (  0,   0,   0),
    (160, 160, 160), ( 30,  74, 157), ( 56,  55, 188), ( 88,  40, 184),
    (117,  33, 148), (132,  35,  92), (130,  46,  36), (111,  63,   0),
    ( 81,  82,   0), ( 49,  99,   0), ( 26, 107,   5), ( 14, 105,  46),
    ( 16,  92, 104), (  0,   0,   0), (  0,   0,   0), (  0,   0,   0),
    (254, 255, 255), (105, 158, 252), (137, 135, 255), (174, 118, 255),
    (206, 109, 241), (224, 112, 178), (222, 124, 112), (200, 145,  62),
    (166, 167,  37), (129, 186,  40), ( 99, 196,  70), ( 84, 193, 125),
    ( 86, 179, 192), ( 60,  60,  60), (  0,   0,   0), (  0,   0,   0),
    (254, 255, 255), (190, 214, 253), (204, 204, 255), (221, 196, 255),
    (234, 192, 249), (242, 193, 223), (241, 199, 194), (232, 208, 170),
    (217, 218, 157), (201, 226, 158), (188, 230, 174), (180, 229, 199),
    (181, 223, 228), (169, 169, 169), (  0,   0,   0), (  0,   0,   0)]"

definition transparent_color :: rgb where
  \<comment> \<open>\<open>_get_non_palette_color\<close> returns its first candidate, which is not a colour of
      the default palette.\<close>
  "transparent_color = (1, 1, 1)"

definition NESPPU_init :: "'v \<Rightarrow> 'v NESPPU" where
  \<comment> \<open>\<open>__init__\<close>, with the video memory it creates as the argument.\<close>
  "NESPPU_init vm = \<lparr>
     ppu_ctrl = 0, ppu_mask = 0, oam_addr = 0, oam_addr_held = 0,
     ppu_scroll = [0, 0], ppu_addr = 0, ppu_byte_latch = 0,
     ppu_data_buffer = 0, io_latch = 0,
     palette = [take 3 DEFAULT_NES_PALETTE, take 3 (drop 3 DEFAULT_NES_PALETTE)],
     pattern_lo = [0, 0], pattern_hi = [0, 0],
     sprite_pattern = replicate 8 (replicate 8 None),
     sprite_bkg_priority = replicate 8 False,
     active_sprites = None,
     line = 0, pixel = 0, row = 0, col = 0, tN = 0, tX = 0, tY = 0,
     in_vblank = False, sprite_zero_hit = False, sprite_overflow = False,
     cycles_since_reset = 0, cycles_since_frame = 0, frames_since_reset = 0,
     vram = vm, oam = replicate 256 0,
     palette_cache = [replicate 4 None, replicate 4 None],
     screen = [], nmi_count = 0 \<rparr>"

section \<open>The register port\<close>

definition invalidate_palette_cache :: "'v NESPPU \<Rightarrow> 'v NESPPU" where
  "invalidate_palette_cache s = s\<lparr>palette_cache := [replicate 4 None, replicate 4 None]\<rparr>"

definition ppu_status :: "'v NESPPU \<Rightarrow> int" where
  "ppu_status s = 128 * of_bool (in_vblank s)
                + 64 * of_bool (sprite_zero_hit s)
                + 32 * of_bool (sprite_overflow s)"

definition increment_vram_address :: "'v NESPPU \<Rightarrow> 'v NESPPU" where
  "increment_vram_address s =
     s\<lparr>ppu_addr := ppu_addr s + (if ppu_ctrl s AND 4 = 0 then 1 else 32)\<rparr>"

definition trigger_nmi :: "'v NESPPU \<Rightarrow> 'v NESPPU" where
  "trigger_nmi s = s\<lparr>nmi_count := Suc (nmi_count s)\<rparr>"

definition read_register ::
  "'v vram_view \<Rightarrow> register \<Rightarrow> 'v NESPPU \<Rightarrow> (int \<times> 'v NESPPU) option" where
  "read_register V register s =
     (case register of
        PPU_CTRL \<Rightarrow> Some (io_latch s, s)
      | PPU_MASK \<Rightarrow> Some (io_latch s, s)
      | PPU_STATUS \<Rightarrow>
          (let s1 = s\<lparr>ppu_byte_latch := 0\<rparr>;
               v = ppu_status s1 + (0x00011111 AND io_latch s1);
               s2 = s1\<lparr>in_vblank := False\<rparr>;
               s3 = s2\<lparr>io_latch := v\<rparr>
           in Some (v, s3))
      | OAM_ADDR \<Rightarrow> Some (io_latch s, s)
      | OAM_DATA \<Rightarrow>
          do { v \<leftarrow> py_index (oam s) (oam_addr s);
               Some (v, s\<lparr>io_latch := v\<rparr>) }
      | PPU_SCROLL \<Rightarrow> Some (io_latch s, s)
      | PPU_ADDR \<Rightarrow> Some (io_latch s, s)
      | PPU_DATA \<Rightarrow>
          (let (v, s1) =
                 (if ppu_addr s < PALETTE_START V
                  then (ppu_data_buffer s,
                        s\<lparr>ppu_data_buffer := vread V (vram s) (ppu_addr s)\<rparr>)
                  else (vread V (vram s) (ppu_addr s),
                        s\<lparr>ppu_data_buffer := vread V (vram s) (ppu_addr s - 0x1000)\<rparr>));
               s2 = increment_vram_address s1;
               s3 = s2\<lparr>io_latch := ppu_data_buffer s2\<rparr>
           in Some (v, s3)))"

definition write_register ::
  "'v vram_view \<Rightarrow> register \<Rightarrow> int \<Rightarrow> 'v NESPPU \<Rightarrow> 'v NESPPU option" where
  "write_register V register v s0 =
     (let s = s0\<lparr>io_latch := v AND 0xFF\<rparr> in
      case register of
        PPU_CTRL \<Rightarrow>
          if cycles_since_reset s < 29658 then Some s
          else
            (let trigger = (in_vblank s \<and> (v AND 128) > 0 \<and> (ppu_ctrl s AND 128) = 0);
                 s1 = s\<lparr>ppu_ctrl := v AND 0xFF\<rparr>;
                 s2 = s1\<lparr>tN := v AND 3\<rparr>
             in Some (if trigger then trigger_nmi s2 else s2))
      | PPU_MASK \<Rightarrow> Some (s\<lparr>ppu_mask := v AND 0xFF\<rparr>)
      | PPU_STATUS \<Rightarrow> Some s
      | OAM_ADDR \<Rightarrow> Some (s\<lparr>oam_addr := v AND 0xFF\<rparr>)
      | OAM_DATA \<Rightarrow>
          do { oam' \<leftarrow> bytearray_store (oam s) (oam_addr s) v;
               Some (s\<lparr>oam := oam', oam_addr := (oam_addr s + 1) AND 0xFF\<rparr>) }
      | PPU_SCROLL \<Rightarrow>
          do { scroll' \<leftarrow> bytearray_store (ppu_scroll s) (ppu_byte_latch s) v;
               let s1 = s\<lparr>ppu_scroll := scroll'\<rparr>;
               let s2 = (if ppu_byte_latch s1 = 0
                         then s1\<lparr>tX := drop_bit 3 (v AND 0xF8)\<rparr>
                         else s1\<lparr>tY := drop_bit 3 (v AND 0xF8)\<rparr>);
               Some (s2\<lparr>ppu_byte_latch := 1 - ppu_byte_latch s2\<rparr>) }
      | PPU_ADDR \<Rightarrow>
          (let s1 = (if ppu_byte_latch s = 0
                     then s\<lparr>ppu_addr := (ppu_addr s AND 0x00FF) + push_bit 8 v,
                            tY := (tY s AND 16) + (v AND 15)\<rparr>
                     else s\<lparr>ppu_addr := (ppu_addr s AND 0xFF00) + v,
                            tY := (tY s AND 7) + (v AND 3),
                            tN := drop_bit 2 (v AND 12)\<rparr>)
           in Some (s1\<lparr>ppu_byte_latch := 1 - ppu_byte_latch s1\<rparr>))
      | PPU_DATA \<Rightarrow>
          (let s1 = s\<lparr>vram := vwrite V (vram s) (ppu_addr s) v\<rparr>;
               s2 = increment_vram_address s1
           in Some (if ppu_addr s2 \<ge> PALETTE_START V
                    then invalidate_palette_cache s2 else s2)))"

section \<open>Palette decoding\<close>

fun palette_colors :: "'v vram_view \<Rightarrow> 'v \<Rightarrow> int \<Rightarrow> int list \<Rightarrow> rgb list option" where
  \<comment> \<open>the loop of \<open>decode_palette\<close> over \<open>range(4)\<close>\<close>
  "palette_colors V vm palette_address [] = Some []"
| "palette_colors V vm palette_address (i # is) =
     do { c \<leftarrow> py_index DEFAULT_NES_PALETTE (vread V vm (palette_address + i) AND 63);
          cs \<leftarrow> palette_colors V vm palette_address is;
          Some (c # cs) }"

definition decode_palette ::
  "'v vram_view \<Rightarrow> int \<Rightarrow> bool \<Rightarrow> 'v NESPPU \<Rightarrow> (rgb list \<times> 'v NESPPU) option" where
  "decode_palette V palette_id is_sprite s =
     do { cache_row \<leftarrow> py_index (palette_cache s) (of_bool is_sprite);
          entry \<leftarrow> py_index cache_row palette_id;
          if (case entry of None \<Rightarrow> False | Some p \<Rightarrow> p \<noteq> [])
          then Some (the entry, s)
          else do {
            let palette_address = PALETTE_START V + 16 * of_bool is_sprite + 4 * palette_id;
            pal \<leftarrow> palette_colors V (vram s) palette_address [0, 1, 2, 3];
            cache_row' \<leftarrow> py_store cache_row palette_id (Some pal);
            cache' \<leftarrow> py_store (palette_cache s) (of_bool is_sprite) cache_row';
            Some (pal, s\<lparr>palette_cache := cache'\<rparr>) } }"

section \<open>Background latches\<close>

definition shift_bkg_latches :: "'v NESPPU \<Rightarrow> 'v NESPPU option" where
  "shift_bkg_latches s =
     do { p1 \<leftarrow> py_index (palette s) 1;
          palette' \<leftarrow> py_store (palette s) 0 p1;
          lo1 \<leftarrow> py_index (pattern_lo s) 1;
          lo' \<leftarrow> bytearray_store (pattern_lo s) 0 lo1;
          hi1 \<leftarrow> py_index (pattern_hi s) 1;
          hi' \<leftarrow> bytearray_store (pattern_hi s) 0 hi1;
          Some (s\<lparr>palette := palette', pattern_lo := lo', pattern_hi := hi'\<rparr>) }"

definition fill_bkg_latches ::
  "'v vram_view \<Rightarrow> int \<Rightarrow> int \<Rightarrow> 'v NESPPU \<Rightarrow> 'v NESPPU option" where
  "fill_bkg_latches V ln cl s =
     do { let rw = int_div ln 8;
          let nx0 = bit_high (tN s) 0;
          let ny0 = bit_high (tN s) 1;
          scroll_y \<leftarrow> py_index (ppu_scroll s) 1;
          let total_row = (rw + of_bool ny0 * 30 + drop_bit 3 (scroll_y AND 0xF8)) mod (2 * 30);
          scroll_x \<leftarrow> py_index (ppu_scroll s) 0;
          let total_col = (cl + of_bool nx0 * 32 + drop_bit 3 (scroll_x AND 0xF8)) mod (2 * 32);
          let ny = int_div total_row 30;
          let nx = int_div total_col 32;
          let tile_row = total_row - ny * 30;
          let tile_col = total_col - nx * 32;
          let ntbl_base = NAMETABLE_START V + (ny * 2 + nx) * NAMETABLE_LENGTH_BYTES V;
          let tile_addr = ntbl_base + tile_row * 32 + tile_col;
          let tile_index = vread V (vram s) tile_addr;
          let tile_bank = (ppu_ctrl s AND 16) > 0;
          let table_base = of_bool tile_bank * 0x1000;
          let tile_base = table_base + tile_index * 16;
          let attribute_byte = vread V (vram s)
                (ntbl_base + ATTRIBUTE_TABLE_OFFSET V
                 + (int_div tile_row 4 * 8 + int_div tile_col 4));
          let shift = 4 * (int_div tile_row 2 mod 2) + 2 * (int_div tile_col 2 mod 2);
          let mask = push_bit (nat shift) 3;
          let palette_id = drop_bit (nat shift) (attribute_byte AND mask);
          (pal, s1) \<leftarrow> decode_palette V palette_id False s;
          palette' \<leftarrow> py_store (palette s1) 1 pal;
          let s2 = s1\<lparr>palette := palette'\<rparr>;
          let tile_line = ln - 8 * rw;
          lo' \<leftarrow> bytearray_store (pattern_lo s2) 1 (vread V (vram s2) (tile_base + tile_line));
          let s3 = s2\<lparr>pattern_lo := lo'\<rparr>;
          hi' \<leftarrow> bytearray_store (pattern_hi s3) 1 (vread V (vram s3) (tile_base + tile_line + 8));
          Some (s3\<lparr>pattern_hi := hi'\<rparr>) }"

definition get_bkg_pixel :: "'v NESPPU \<Rightarrow> rgb option" where
  "get_bkg_pixel s =
     (if (ppu_mask s AND 8) = 0 \<or> (pixel s - 1 < 8 \<and> bit_low (ppu_mask s) 1)
      then Some transparent_color
      else do {
        let mask = push_bit (nat (7 - (pixel s - 1) mod 8)) 1;
        lo \<leftarrow> py_index (pattern_lo s) 0;
        hi \<leftarrow> py_index (pattern_hi s) 0;
        let v = of_bool ((lo AND mask) > 0) + of_bool ((hi AND mask) > 0) * 2;
        if v > 0 then do { pal \<leftarrow> py_index (palette s) 0; py_index pal v }
        else Some transparent_color })"

section \<open>Sprite evaluation and prefetch\<close>

fun sprite_pixels ::
  "rgb list \<Rightarrow> bool \<Rightarrow> int \<Rightarrow> int \<Rightarrow> nat list \<Rightarrow> rgb option list \<Rightarrow> rgb option list option" where
  \<comment> \<open>the loop over \<open>x in range(8)\<close> of \<open>_fill_sprite_latches\<close>, on one row of
      \<open>_sprite_pattern\<close>\<close>
  "sprite_pixels pal flip_h lo hi [] rw = Some rw"
| "sprite_pixels pal flip_h lo hi (x # xs) rw =
     do { let c = of_bool (bit_high hi x) * 2 + of_bool (bit_high lo x);
          px \<leftarrow> (if c \<noteq> 0 then map_option Some (py_index pal c) else Some None);
          rw' \<leftarrow> py_store rw (if flip_h then int x else 7 - int x) px;
          sprite_pixels pal flip_h lo hi xs rw' }"

definition sprite_tile_line ::
  "bool \<Rightarrow> bool \<Rightarrow> int list \<Rightarrow> int list \<Rightarrow> int \<Rightarrow> int \<Rightarrow> (int \<times> int) option" where
  \<comment> \<open>the tile index and the line within the tile of sprite \<open>i\<close> at \<open>address\<close>: the
      \<open>if not double_sprites ... else ...\<close> of \<open>_fill_sprite_latches\<close>\<close>
  "sprite_tile_line double_sprites flip_v om sprite_line i address =
     (if \<not> double_sprites
      then do { tile_ix \<leftarrow> py_index om ((address + 1) AND 0xFF);
                sl \<leftarrow> py_index sprite_line i;
                Some (tile_ix, if \<not> flip_v then sl else 7 - sl) }
      else do { sl \<leftarrow> py_index sprite_line i;
                let ln = (if \<not> flip_v then sl else 15 - sl);
                t \<leftarrow> py_index om ((address + 1) AND 0xFF);
                let tile_ix = t AND 0xFE;
                Some (if ln \<ge> 8 then (tile_ix + 1, ln - 8) else (tile_ix, ln)) })"

definition fill_sprite_latch ::
  "'v vram_view \<Rightarrow> bool \<Rightarrow> int \<Rightarrow> int list \<Rightarrow> int \<times> int \<Rightarrow> 'v NESPPU \<Rightarrow> 'v NESPPU option" where
  \<comment> \<open>one pass of the loop over \<open>enumerate(active_sprite_addrs)\<close>\<close>
  "fill_sprite_latch V double_sprites table_base sprite_line ia s =
     (case ia of (i, address) \<Rightarrow>
      do { attribs \<leftarrow> py_index (oam s) ((address + 2) AND 0xFF);
           let palette_ix = attribs AND 3;
           (pal, s1) \<leftarrow> decode_palette V palette_ix True s;
           let flip_v = bit_high attribs 7;
           let flip_h = bit_high attribs 6;
           prio' \<leftarrow> py_store (sprite_bkg_priority s1) i (bit_high attribs 5);
           let s2 = s1\<lparr>sprite_bkg_priority := prio'\<rparr>;
           (tile_ix, ln) \<leftarrow> sprite_tile_line double_sprites flip_v (oam s2) sprite_line i address;
           let tile_base = table_base + tile_ix * 16;
           let sprite_pattern_lo = vread V (vram s2) (tile_base + ln);
           let sprite_pattern_hi = vread V (vram s2) (tile_base + 8 + ln);
           rw \<leftarrow> py_index (sprite_pattern s2) i;
           rw' \<leftarrow> sprite_pixels pal flip_h sprite_pattern_lo sprite_pattern_hi [0..<8] rw;
           sp' \<leftarrow> py_store (sprite_pattern s2) i rw';
           Some (s2\<lparr>sprite_pattern := sp'\<rparr>) })"

fun fill_sprite_loop ::
  "'v vram_view \<Rightarrow> bool \<Rightarrow> int \<Rightarrow> int list \<Rightarrow> (int \<times> int) list \<Rightarrow> 'v NESPPU \<Rightarrow> 'v NESPPU option" where
  "fill_sprite_loop V double_sprites table_base sprite_line [] s = Some s"
| "fill_sprite_loop V double_sprites table_base sprite_line (ia # rest) s =
     do { s' \<leftarrow> fill_sprite_latch V double_sprites table_base sprite_line ia s;
          fill_sprite_loop V double_sprites table_base sprite_line rest s' }"

definition fill_sprite_latches ::
  "'v vram_view \<Rightarrow> int list \<Rightarrow> int list \<Rightarrow> bool \<Rightarrow> 'v NESPPU \<Rightarrow> 'v NESPPU option" where
  "fill_sprite_latches V active_sprite_addrs sprite_line double_sprites s =
     (let table_base = of_bool ((ppu_ctrl s AND 8) > 0) * 0x1000
      in fill_sprite_loop V double_sprites table_base sprite_line
           (zip (map int [0..<length active_sprite_addrs]) active_sprite_addrs) s)"

fun prefetch_scan ::
  "int list \<Rightarrow> int \<Rightarrow> int \<Rightarrow> int \<Rightarrow> int list \<Rightarrow> int list \<times> int list \<Rightarrow> (int list \<times> int list) option" where
  \<comment> \<open>the loop over \<open>n in range(64)\<close> of \<open>_prefetch_active_sprites\<close>, with its
      \<open>break\<close>; the pair is \<open>_active_sprites\<close> and \<open>sprite_line\<close>\<close>
  "prefetch_scan om held ln sprite_height [] acc = Some acc"
| "prefetch_scan om held ln sprite_height (n # ns) (act, sline) =
     do { let addr = (held + n * 4) mod 256;
          sprite_y \<leftarrow> py_index om addr;
          if sprite_y \<le> ln \<and> ln < sprite_y + sprite_height
          then (let act' = act @ [addr]; sline' = sline @ [ln - sprite_y]
                in if length act' \<ge> 9 then Some (act', sline')
                   else prefetch_scan om held ln sprite_height ns (act', sline'))
          else prefetch_scan om held ln sprite_height ns (act, sline) }"

definition prefetch_active_sprites ::
  "'v vram_view \<Rightarrow> int \<Rightarrow> 'v NESPPU \<Rightarrow> 'v NESPPU option" where
  "prefetch_active_sprites V ln s =
     do { let double_sprites = (ppu_ctrl s AND 32) > 0;
          let sprite_height = (if double_sprites then 16 else 8);
          (act, sline) \<leftarrow> prefetch_scan (oam s) (oam_addr_held s) ln sprite_height [0..63] ([], []);
          let s1 = s\<lparr>active_sprites := Some act\<rparr>;
          let (s2, sline2) =
                (if length act > 8
                 then (s1\<lparr>sprite_overflow := True, active_sprites := Some (take 8 act)\<rparr>,
                       take 8 sline)
                 else (s1, sline));
          fill_sprite_latches V (the (active_sprites s2)) sline2 double_sprites s2 }"

section \<open>Sprite overlay\<close>

fun overlay_loop ::
  "'v NESPPU \<Rightarrow> int list \<Rightarrow> nat list \<Rightarrow> rgb option \<times> nat option \<times> bool
     \<Rightarrow> (rgb option \<times> nat option \<times> bool) option" where
  \<comment> \<open>the loop of \<open>_overlay_sprites\<close> over the slots; the triple is \<open>sprite_c_out\<close>,
      \<open>top_sprite\<close> and \<open>s0_visible\<close>\<close>
  "overlay_loop s act [] st = Some st"
| "overlay_loop s act (i # is) (sprite_c_out, top_sprite, s0_visible) =
     do { sprite_addr \<leftarrow> py_index act (int i);
          sprite_x \<leftarrow> py_index (oam s) (sprite_addr + 3);
          if sprite_x \<le> pixel s - 1 \<and> pixel s - 1 < sprite_x + 8
          then do {
            let pix = pixel s - 1 - sprite_x;
            rw \<leftarrow> py_index (sprite_pattern s) (int i);
            c \<leftarrow> py_index rw pix;
            case c of
              Some colour \<Rightarrow>
                overlay_loop s act is (Some colour, Some i, s0_visible \<or> sprite_addr = 0)
            | None \<Rightarrow> overlay_loop s act is (sprite_c_out, top_sprite, s0_visible) }
          else overlay_loop s act is (sprite_c_out, top_sprite, s0_visible) }"

definition overlay_sprites ::
  "'v vram_view \<Rightarrow> rgb \<Rightarrow> 'v NESPPU \<Rightarrow> (rgb \<times> 'v NESPPU) option" where
  "overlay_sprites V bkg_pixel s =
     (if (ppu_mask s AND 16) = 0 \<or> (pixel s - 1 < 8 \<and> bit_low (ppu_mask s) 2)
      then Some (bkg_pixel, s)
      else do {
        act \<leftarrow> active_sprites s;
        (sprite_c_out, top_sprite, s0_visible) \<leftarrow>
           overlay_loop s act (rev [0..<length act]) (None, None, False);
        let s1 = (if s0_visible \<and> bkg_pixel \<noteq> transparent_color
                  then s\<lparr>sprite_zero_hit := True\<rparr> else s);
        c_out \<leftarrow>
          (case sprite_c_out of
             None \<Rightarrow> Some bkg_pixel
           | Some c \<Rightarrow>
               do { t \<leftarrow> top_sprite;
                    prio \<leftarrow> py_index (sprite_bkg_priority s1) (int t);
                    Some (if \<not> prio \<or> bkg_pixel = transparent_color then c else bkg_pixel) });
        if c_out \<noteq> transparent_color then Some (c_out, s1)
        else do { (pal, s2) \<leftarrow> decode_palette V 0 False s1;
                  c \<leftarrow> py_index pal 0;
                  Some (c, s2) } })"

section \<open>The tick port\<close>

definition new_frame :: "'v NESPPU \<Rightarrow> 'v NESPPU" where
  "new_frame s = s\<lparr>frames_since_reset := frames_since_reset s + 1,
                   cycles_since_frame := 0, pixel := 0, line := 0, row := 0, col := 0\<rparr>"

definition render_dot :: "'v vram_view \<Rightarrow> 'v NESPPU \<Rightarrow> 'v NESPPU option" where
  \<comment> \<open>the first \<open>if\<close> of the loop body of \<open>run_cycles\<close>: a visible scanline with
      rendering enabled\<close>
  "render_dot V s =
     (if line s \<le> 239 \<and> (ppu_mask s AND 24) > 0 then
        if 0 < pixel s \<and> pixel s \<le> 256 then
          do { s1 \<leftarrow> (if (pixel s - 1) mod 8 = 0 \<and> pixel s > 1
                      then do { s' \<leftarrow> shift_bkg_latches s;
                                fill_bkg_latches V (line s') (col s' + 1) s' }
                      else Some s);
               bkg_pixel \<leftarrow> get_bkg_pixel s1;
               (final_pixel, s2) \<leftarrow> overlay_sprites V bkg_pixel s1;
               Some (if final_pixel \<noteq> transparent_color
                     then s2\<lparr>screen := screen s2 @ [(pixel s2 - 1, line s2, final_pixel)]\<rparr>
                     else s2) }
        else if pixel s = 257 then prefetch_active_sprites V (line s + 1) s
        else if 321 \<le> pixel s \<and> pixel s \<le> 336 then
          (if pixel s mod 8 = 1
           then do { s' \<leftarrow> shift_bkg_latches s;
                     fill_bkg_latches V (line s' + 1) (int_div (pixel s' - 321) 8) s' }
           else Some s)
        else Some s
      else Some s)"

definition flag_edges ::
  "'v vram_view \<Rightarrow> bool \<Rightarrow> 'v NESPPU \<Rightarrow> (bool \<times> 'v NESPPU) option" where
  \<comment> \<open>the second \<open>if\<close>/\<open>elif\<close> chain of the loop body; the boolean is the local
      \<open>frame_ended\<close>\<close>
  "flag_edges V frame_ended s =
     (if line s = 0 \<and> pixel s = 65 then Some (frame_ended, s\<lparr>oam_addr_held := oam_addr s\<rparr>)
      else if line s = 240 \<and> pixel s = 0 then Some (frame_ended, s)
      else if line s = 241 \<and> pixel s = 1 then
        (let s1 = s\<lparr>in_vblank := True\<rparr>
         in Some (frame_ended, if (ppu_ctrl s1 AND 128) > 0 then trigger_nmi s1 else s1))
      else if line s \<le> 260 then Some (frame_ended, s)
      else if line s = 261 then
        if pixel s = 1 then
          Some (frame_ended,
                s\<lparr>in_vblank := False, sprite_zero_hit := False, sprite_overflow := False\<rparr>)
        else if pixel s = 257 then
          map_option (Pair frame_ended) (prefetch_active_sprites V 0 s)
        else if 321 \<le> pixel s \<and> pixel s \<le> 336 then
          (if pixel s mod 8 = 1
           then do { s' \<leftarrow> shift_bkg_latches s;
                     s'' \<leftarrow> fill_bkg_latches V 0 (int_div (pixel s' - 321) 8) s';
                     Some (frame_ended, s'') }
           else Some (frame_ended, s))
        else if pixel s = 341 - 1 - frames_since_reset s mod 2 then Some (True, s)
        else Some (frame_ended, s)
      else Some (frame_ended, s))"

definition debug_print :: "'v NESPPU \<Rightarrow> unit option" where
  \<comment> \<open>the block of \<open>print\<close> calls at dot 256 of lines 15 and 239: it changes nothing,
      and reads both bytes of \<open>ppu_scroll\<close>\<close>
  "debug_print s =
     (if (line s = 15 \<and> pixel s = 256) \<or> (line s = 239 \<and> pixel s = 256)
      then do { _ \<leftarrow> py_index (ppu_scroll s) 0;
                _ \<leftarrow> py_index (ppu_scroll s) 1;
                Some () }
      else Some ())"

definition advance_counters :: "'v NESPPU \<Rightarrow> 'v NESPPU" where
  "advance_counters s =
     (let s1 = s\<lparr>cycles_since_reset := cycles_since_reset s + 1,
                 cycles_since_frame := cycles_since_frame s + 1,
                 pixel := pixel s + 1\<rparr>;
          s2 = (if pixel s1 > 1 \<and> pixel s1 mod 8 = 1 then s1\<lparr>col := col s1 + 1\<rparr> else s1)
      in if pixel s2 \<ge> 341
         then (let s3 = s2\<lparr>line := line s2 + 1, pixel := 0, col := 0\<rparr>
               in if line s3 > 0 \<and> line s3 mod 8 = 0 then s3\<lparr>row := row s3 + 1\<rparr> else s3)
         else s2)"

definition cycle :: "'v vram_view \<Rightarrow> bool \<times> 'v NESPPU \<Rightarrow> (bool \<times> 'v NESPPU) option" where
  \<comment> \<open>one pass of the loop of \<open>run_cycles\<close>, on the local \<open>frame_ended\<close> and the PPU\<close>
  "cycle V x =
     (case x of (frame_ended, s) \<Rightarrow>
      do { s1 \<leftarrow> render_dot V s;
           (frame_ended', s2) \<leftarrow> flag_edges V frame_ended s1;
           _ \<leftarrow> debug_print s2;
           let s3 = advance_counters s2;
           Some (frame_ended', if frame_ended' then new_frame s3 else s3) })"

fun cycles_loop :: "'v vram_view \<Rightarrow> nat \<Rightarrow> bool \<times> 'v NESPPU \<Rightarrow> (bool \<times> 'v NESPPU) option" where
  "cycles_loop V 0 x = Some x"
| "cycles_loop V (Suc n) x = do { y \<leftarrow> cycle V x; cycles_loop V n y }"

definition run_cycles :: "'v vram_view \<Rightarrow> int \<Rightarrow> 'v NESPPU \<Rightarrow> (bool \<times> 'v NESPPU) option" where
  \<comment> \<open>\<open>frame_ended\<close> starts as \<open>False\<close> and is returned with the state\<close>
  "run_cycles V num_cycles s = cycles_loop V (nat num_cycles) (False, s)"

section \<open>Well-formed states and the properties' vocabulary\<close>

text \<open>
  The shapes that the latches of a PPU object always have: the OAM is a \<open>bytearray(256)\<close>,
  the scroll bytes and the background pattern latches are bytearrays of two bytes, there are
  two background palettes, eight sprite slots of eight pixels each with their priority bits,
  and the palette cache holds two rows of four entries, each \<open>None\<close> or a decoded
  palette of four colours.
\<close>

definition cache_ok :: "rgb list option list list \<Rightarrow> bool" where
  "cache_ok pc \<longleftrightarrow> length pc = 2 \<and>
     list_all (\<lambda>rw. length rw = 4 \<and>
        list_all (\<lambda>e. case e of None \<Rightarrow> True | Some p \<Rightarrow> p = [] \<or> length p = 4) rw) pc"

definition latches_ok :: "'v NESPPU \<Rightarrow> bool" where
  "latches_ok s \<longleftrightarrow>
     length (oam s) = 256 \<and> length (ppu_scroll s) = 2
   \<and> length (palette s) = 2
   \<and> length (pattern_lo s) = 2 \<and> list_all (\<lambda>b. 0 \<le> b \<and> b < 256) (pattern_lo s)
   \<and> length (pattern_hi s) = 2 \<and> list_all (\<lambda>b. 0 \<le> b \<and> b < 256) (pattern_hi s)
   \<and> length (sprite_pattern s) = 8 \<and> list_all (\<lambda>rw. length rw = 8) (sprite_pattern s)
   \<and> length (sprite_bkg_priority s) = 8
   \<and> cache_ok (palette_cache s)"


text \<open>
  The OAM addresses of the 64 entries from \<open>oam_addr_held\<close> on, in scan order, whose
  sprite covers line \<open>ln\<close>: \<open>sprite_y \<le> ln < sprite_y + height\<close>, the height being 16 when
  CTRL bit 5 is set and 8 otherwise.
\<close>

definition sprites_on_line :: "'v NESPPU \<Rightarrow> int \<Rightarrow> int list" where
  "sprites_on_line s ln =
     filter (\<lambda>a. oam s ! nat a \<le> ln
                \<and> ln < oam s ! nat a + (if (ppu_ctrl s AND 32) > 0 then 16 else 8))
       (map (\<lambda>n. (oam_addr_held s + n * 4) mod 256) [0..63])"

text \<open>
  Some captured sprite whose OAM source address is 0 has an opaque pixel at the current dot;
  and the background pixel that the dot loop computes at the current dot, after the shift
  and fetch of the background latches that the dot may start with.
\<close>

definition sprite_zero_opaque :: "'v NESPPU \<Rightarrow> bool" where
  "sprite_zero_opaque s =
     (case active_sprites s of
        None \<Rightarrow> False
      | Some act \<Rightarrow>
          list_ex (\<lambda>i. act ! i = 0
                     \<and> oam s ! 3 \<le> pixel s - 1 \<and> pixel s - 1 < oam s ! 3 + 8
                     \<and> sprite_pattern s ! i ! nat (pixel s - 1 - oam s ! 3) \<noteq> None)
            [0..<length act])"


section \<open>Example inputs\<close>

text \<open>
  Modelled from the spec: the VRAM view of memory.py, which is not among the sources. The
  spec gives it \<open>read\<close>, \<open>write\<close> and four constants, with the pattern tables at
  0x0000 to 0x1FFF, four nametables of 32 by 30 tile bytes and a 64-byte attribute
  region each from 0x2000 to 0x2FFF, and the palette at 0x3F00 (the address in the
  comment of \<open>read_register\<close>). The view below is a flat memory without mirroring. It
  instantiates theorems at concrete inputs only: every theorem about the PPU holds for any
  view.
\<close>

definition flat_vram :: "(int \<Rightarrow> int) vram_view" where
  "flat_vram = \<lparr> vread = (\<lambda>m a. m a), vwrite = (\<lambda>m a v. m(a := v)),
     PALETTE_START = 0x3F00, NAMETABLE_START = 0x2000,
     NAMETABLE_LENGTH_BYTES = 0x400, ATTRIBUTE_TABLE_OFFSET = 0x3C0 \<rparr>"

definition blank_vram :: "int \<Rightarrow> int" where
  "blank_vram a = 0"

definition ppu_reset :: "(int \<Rightarrow> int) NESPPU" where
  \<comment> \<open>the PPU as \<open>__init__\<close> leaves it, on a video memory of zeros\<close>
  "ppu_reset = NESPPU_init blank_vram"

text \<open>
  Scenario S4 of the spec: nine sprites whose lines include scanline 50, at dot 257 of line
  49 with rendering enabled.
\<close>

definition nine_sprites_oam :: "int list" where
  "nine_sprites_oam = concat (replicate 9 [45, 0, 0, 0]) @ replicate 220 255"

definition nine_sprites :: "(int \<Rightarrow> int) NESPPU" where
  "nine_sprites = ppu_reset\<lparr>ppu_mask := 0x18, line := 49, pixel := 257, oam := nine_sprites_oam\<rparr>"

text \<open>
  One sprite of 8 by 16 pixels at the top of the screen with tile index 1, CTRL bit 5 set
  and CTRL bit 3 clear, on a given video memory.
\<close>

definition tall_sprite :: "(int \<Rightarrow> int) \<Rightarrow> (int \<Rightarrow> int) NESPPU" where
  "tall_sprite vm =
     ppu_reset\<lparr>ppu_ctrl := 0x20, oam := [0, 1, 0, 0] @ replicate 252 255, vram := vm\<rparr>"


section \<open>The register port: properties\<close>



text \<open>
  C2. Reading STATUS should return the three flags in bits 7 to 5 and the low five bits of
  \<open>io_latch\<close> below them. The mask in \<open>read_register\<close> is written \<open>0x00011111\<close>, a
  hexadecimal literal, where the binary \<open>0b00011111\<close> is meant: of a byte it keeps bits
  0 and 4 only. After a write of 0x0E to MASK the latch holds 0x0E, and the STATUS read
  that follows returns 0, not 0x0E.
\<close>

theorem status_read_drops_latch_bits:
  "map_option fst
     (write_register V PPU_MASK 0x0E (NESPPU_init vm) \<bind> read_register V PPU_STATUS)
   = Some 0"
  by (simp add: read_register_def write_register_def NESPPU_init_def ppu_status_def)

text \<open>
  C3. A DATA read below the palette region returns the read buffer and refills it from
  VRAM at \<open>ppu_addr\<close>; in the palette region it returns the VRAM byte at \<open>ppu_addr\<close>
  and refills the buffer from \<open>ppu_addr - 0x1000\<close>. In both cases \<open>ppu_addr\<close> then
  grows by 1 when CTRL bit 2 is clear and by 32 otherwise. The read always returns.
\<close>

theorem data_read_buffered:
  "(let below = ppu_addr s < PALETTE_START V; r = read_register V PPU_DATA s in
      map_option fst r
        = Some (if below then ppu_data_buffer s else vread V (vram s) (ppu_addr s))
    \<and> map_option (ppu_data_buffer \<circ> snd) r
        = Some (if below then vread V (vram s) (ppu_addr s)
                else vread V (vram s) (ppu_addr s - 0x1000))
    \<and> map_option (ppu_addr \<circ> snd) r
        = Some (ppu_addr s + (if ppu_ctrl s AND 4 = 0 then 1 else 32)))"
  by (simp add: read_register_def increment_vram_address_def Let_def)

theorem data_read_buffered_witness:
  "map_option fst (read_register flat_vram PPU_DATA
       (ppu_reset\<lparr>ppu_addr := 0x2000, ppu_data_buffer := 0xAA, ppu_ctrl := 4\<rparr>)) = Some 0xAA
   \<and> map_option (ppu_data_buffer \<circ> snd) (read_register flat_vram PPU_DATA
       (ppu_reset\<lparr>ppu_addr := 0x2000, ppu_data_buffer := 0xAA, ppu_ctrl := 4\<rparr>)) = Some 0
   \<and> map_option (ppu_addr \<circ> snd) (read_register flat_vram PPU_DATA
       (ppu_reset\<lparr>ppu_addr := 0x2000, ppu_data_buffer := 0xAA, ppu_ctrl := 4\<rparr>)) = Some 0x2020
   \<and> map_option fst (read_register flat_vram PPU_DATA
       (ppu_reset\<lparr>ppu_addr := 0x3F01, ppu_data_buffer := 0xAA\<rparr>)) = Some 0
   \<and> map_option (ppu_addr \<circ> snd) (read_register flat_vram PPU_DATA
       (ppu_reset\<lparr>ppu_addr := 0x3F01, ppu_data_buffer := 0xAA\<rparr>)) = Some 0x3F02"
  using data_read_buffered [of "ppu_reset\<lparr>ppu_addr := 0x2000, ppu_data_buffer := 0xAA, ppu_ctrl := 4\<rparr>" flat_vram]
        data_read_buffered [of "ppu_reset\<lparr>ppu_addr := 0x3F01, ppu_data_buffer := 0xAA\<rparr>" flat_vram]
  by (simp add: Let_def flat_vram_def blank_vram_def ppu_reset_def NESPPU_init_def)




text \<open>
  C9. \<open>ppu_addr\<close> is documented in \<open>__init__\<close> as the accumulated 16-bit address, and the
  neighbouring OAM address is masked after its increment (\<open>(oam_addr + 1) & 0xFF\<close>), but
  \<open>_increment_vram_address\<close> adds 1 or 32 without a mask. After reset, two writes of
  0xFF to ADDR set \<open>ppu_addr\<close> to 0xFFFF, and the DATA read that follows leaves it at
  0x10000.
\<close>

theorem data_read_leaves_16_bits:
  "map_option (ppu_addr \<circ> snd)
     (write_register V PPU_ADDR 0xFF (NESPPU_init vm)
        \<bind> write_register V PPU_ADDR 0xFF
        \<bind> read_register V PPU_DATA)
   = Some 0x10000"
  by (simp add: read_register_def write_register_def NESPPU_init_def
        increment_vram_address_def Let_def)

text \<open>
  C10. A STATUS read returns and changes only the write toggle, \<open>in_vblank\<close> and
  \<open>io_latch\<close>: the state afterwards is the state before with these three fields
  updated, so the sprite flags, CTRL, MASK, the OAM address and contents, the scroll bytes,
  \<open>ppu_addr\<close>, the read buffer and the video memory are as before.
\<close>

theorem status_read_frame:
  "\<exists>v s'. read_register V PPU_STATUS s = Some (v, s')
     \<and> s' = s\<lparr>ppu_byte_latch := 0, in_vblank := False, io_latch := v\<rparr>
     \<and> sprite_zero_hit s' = sprite_zero_hit s \<and> sprite_overflow s' = sprite_overflow s
     \<and> ppu_ctrl s' = ppu_ctrl s \<and> ppu_mask s' = ppu_mask s
     \<and> oam_addr s' = oam_addr s \<and> oam s' = oam s
     \<and> ppu_scroll s' = ppu_scroll s \<and> ppu_addr s' = ppu_addr s
     \<and> ppu_data_buffer s' = ppu_data_buffer s \<and> vram s' = vram s"
  by (simp add: read_register_def Let_def ppu_status_def)

section \<open>The latches: every fetch returns and keeps the shapes\<close>

lemma py_index_nat: "0 \<le> i \<Longrightarrow> i < int (length xs) \<Longrightarrow> py_index xs i = Some (xs ! nat i)"
  by (simp add: py_index_def)

lemma py_store_nat: "0 \<le> i \<Longrightarrow> i < int (length xs) \<Longrightarrow> py_store xs i v = Some (xs[nat i := v])"
  by (simp add: py_store_def)

lemma py_index_SomeD:
  "py_index xs i = Some x \<Longrightarrow> 0 \<le> i \<Longrightarrow> i < int (length xs) \<and> x = xs ! nat i"
  by (auto simp add: py_index_def Let_def split: if_splits)

lemma and_63_bounds: "0 \<le> (x::int) AND 63 \<and> x AND 63 < 64"
proof -
  have "x AND 63 \<le> 63" by (rule AND_upper2) simp
  then show ?thesis by simp
qed

lemma length_DEFAULT_NES_PALETTE: "length DEFAULT_NES_PALETTE = 64"
  by (simp add: DEFAULT_NES_PALETTE_def)

lemma palette_colors_total:
  "\<exists>pal. palette_colors V vm a is = Some pal \<and> length pal = length is"
proof (induction "is")
  case Nil
  then show ?case by simp
next
  case (Cons i "is")
  have "py_index DEFAULT_NES_PALETTE (vread V vm (a + i) AND 63)
        = Some (DEFAULT_NES_PALETTE ! nat (vread V vm (a + i) AND 63))"
    using and_63_bounds [of "vread V vm (a + i)"]
    by (intro py_index_nat) (simp_all add: length_DEFAULT_NES_PALETTE)
  with Cons show ?case by auto
qed

lemma cache_ok_update:
  assumes "cache_ok pc" "length pal = 4" "i < 2" "j < 4"
  shows "cache_ok (pc[i := (pc ! i)[j := Some pal]])"
  using assms
  by (auto simp add: cache_ok_def list_all_length nth_list_update)

lemma decode_palette_total:
  assumes "cache_ok (palette_cache s)" "0 \<le> pid" "pid \<le> 3"
  shows "\<exists>pal pc'. decode_palette V pid b s = Some (pal, s\<lparr>palette_cache := pc'\<rparr>)
           \<and> length pal = 4 \<and> cache_ok pc'"
proof -
  let ?pc = "palette_cache s"
  let ?i = "of_bool b :: int"
  let ?e = "?pc ! nat ?i ! nat pid"
  from assms have len: "length ?pc = 2" and rw: "length (?pc ! nat ?i) = 4"
    by (auto simp add: cache_ok_def list_all_length)
  have r1: "py_index ?pc ?i = Some (?pc ! nat ?i)"
    using len by (intro py_index_nat) auto
  have r2: "py_index (?pc ! nat ?i) pid = Some ?e"
    using rw assms by (intro py_index_nat) auto
  show ?thesis
  proof (cases "case ?e of None \<Rightarrow> False | Some p \<Rightarrow> p \<noteq> []")
    case False
    obtain pal where pal: "palette_colors V (vram s)
        (PALETTE_START V + 16 * ?i + 4 * pid) [0, 1, 2, 3] = Some pal"
        "length pal = length [0, 1, 2, 3 :: int]"
      using palette_colors_total [of V "vram s" _ "[0, 1, 2, 3]"] by blast
    have s1: "py_store (?pc ! nat ?i) pid (Some pal) = Some ((?pc ! nat ?i)[nat pid := Some pal])"
      using rw assms by (intro py_store_nat) auto
    have s2: "py_store ?pc ?i ((?pc ! nat ?i)[nat pid := Some pal])
              = Some (?pc[nat ?i := (?pc ! nat ?i)[nat pid := Some pal]])"
      using len by (intro py_store_nat) auto
    have ok: "cache_ok (?pc[nat ?i := (?pc ! nat ?i)[nat pid := Some pal]])"
      using assms pal by (intro cache_ok_update) auto
    have "decode_palette V pid b s
          = Some (pal, s\<lparr>palette_cache := ?pc[nat ?i := (?pc ! nat ?i)[nat pid := Some pal]]\<rparr>)"
      unfolding decode_palette_def using False r1 r2 pal(1) s1 s2
      by (simp del: palette_colors.simps)
    with ok pal(2) show ?thesis by auto
  next
    case True
    then obtain p where p: "?e = Some p" "p \<noteq> []"
      by (auto split: option.splits)
    have "list_all (\<lambda>e. case e of None \<Rightarrow> True | Some p \<Rightarrow> p = [] \<or> length p = 4) (?pc ! nat ?i)"
      using assms(1) len by (auto simp add: cache_ok_def list_all_length)
    then have "case ?e of None \<Rightarrow> True | Some p \<Rightarrow> p = [] \<or> length p = 4"
      using rw assms by (auto simp add: list_all_length)
    with p have lp: "length p = 4" by simp
    have "decode_palette V pid b s = Some (p, s\<lparr>palette_cache := ?pc\<rparr>)"
      unfolding decode_palette_def using True r1 r2 p
      by (simp del: palette_colors.simps)
    with lp assms(1) show ?thesis by blast
  qed
qed





lemma and_255_bounds: "0 \<le> (x::int) AND 255 \<and> x AND 255 < 256"
proof -
  have "x AND 255 \<le> 255" by (rule AND_upper2) simp
  then show ?thesis by simp
qed

lemma sprite_pixels_total:
  assumes "length pal = 4" "length rw = 8" "list_all (\<lambda>x. x < 8) xs"
  shows "\<exists>rw'. sprite_pixels pal flip_h lo hi xs rw = Some rw' \<and> length rw' = 8"
  using assms
proof (induction xs arbitrary: rw)
  case Nil
  then show ?case by simp
next
  case (Cons x xs)
  define c :: int where "c = of_bool (bit_high hi x) * 2 + of_bool (bit_high lo x)"
  have c: "0 \<le> c" "c < 4" by (simp_all add: c_def)
  define px where "px = (if c \<noteq> 0 then Some (pal ! nat c) else None)"
  have px: "(if c \<noteq> 0 then map_option Some (py_index pal c) else Some None) = Some px"
    using c Cons.prems(1) by (simp add: px_def py_index_def)
  define j :: int where "j = (if flip_h then int x else 7 - int x)"
  from Cons.prems have "x < 8" by simp
  then have j: "0 \<le> j" "j < 8" by (simp_all add: j_def)
  have st: "py_store rw j px = Some (rw[nat j := px])"
    using j Cons.prems(2) by (simp add: py_store_def)
  have "sprite_pixels pal flip_h lo hi (x # xs) rw
        = sprite_pixels pal flip_h lo hi xs (rw[nat j := px])"
    using px st by (simp add: Let_def c_def [symmetric] j_def [symmetric])
  moreover have "\<exists>rw'. sprite_pixels pal flip_h lo hi xs (rw[nat j := px]) = Some rw' \<and> length rw' = 8"
    using Cons.prems by (intro Cons.IH) simp_all
  ultimately show ?case by simp
qed

lemma sprite_tile_line_total:
  assumes "length om = 256" "0 \<le> i" "i < int (length sprite_line)"
  shows "\<exists>t l. sprite_tile_line double_sprites flip_v om sprite_line i address = Some (t, l)"
proof -
  have "py_index om ((address + 1) AND 0xFF) = Some (om ! nat ((address + 1) AND 0xFF))"
    using and_255_bounds [of "address + 1"] assms(1) by (intro py_index_nat) simp_all
  moreover have "py_index sprite_line i = Some (sprite_line ! nat i)"
    using assms by (intro py_index_nat) simp_all
  ultimately show ?thesis
    by (simp add: sprite_tile_line_def Let_def)
qed

lemma fill_sprite_latch_total:
  assumes "latches_ok s" "0 \<le> i" "i < 8" "i < int (length sprite_line)"
  shows "\<exists>pc pr sp. fill_sprite_latch V double_sprites table_base sprite_line (i, address) s
            = Some (s\<lparr>sprite_pattern := sp, sprite_bkg_priority := pr, palette_cache := pc\<rparr>)
           \<and> latches_ok (s\<lparr>sprite_pattern := sp, sprite_bkg_priority := pr, palette_cache := pc\<rparr>)"
proof -
  from assms(1) have l: "length (oam s) = 256" "length (sprite_pattern s) = 8"
      "length (sprite_bkg_priority s) = 8"
    and rws: "list_all (\<lambda>rw. length rw = 8) (sprite_pattern s)"
    and c: "cache_ok (palette_cache s)"
    by (auto simp add: latches_ok_def)
  define attribs where "attribs = oam s ! nat ((address + 2) AND 0xFF)"
  have a: "py_index (oam s) ((address + 2) AND 0xFF) = Some attribs"
    unfolding attribs_def using and_255_bounds [of "address + 2"] l(1)
    by (intro py_index_nat) simp_all
  have "0 \<le> attribs AND 3" "attribs AND 3 \<le> 3"
    by (simp, rule AND_upper2) simp
  from decode_palette_total [OF c this, of V True]
  obtain pal pc' where d: "decode_palette V (attribs AND 3) True s = Some (pal, s\<lparr>palette_cache := pc'\<rparr>)"
    and pal: "length pal = 4" and pc': "cache_ok pc'" by blast
  have pr: "py_store (sprite_bkg_priority s) i (bit_high attribs 5)
            = Some ((sprite_bkg_priority s)[nat i := bit_high attribs 5])"
    using assms l by (intro py_store_nat) simp_all
  obtain t ln where tl: "sprite_tile_line double_sprites (bit_high attribs 7) (oam s) sprite_line i address
       = Some (t, ln)"
    using sprite_tile_line_total [OF l(1) assms(2) assms(4)] by blast
  have rw: "py_index (sprite_pattern s) i = Some (sprite_pattern s ! nat i)"
    using assms l by (intro py_index_nat) simp_all
  have xs: "list_all (\<lambda>x. x < 8) [0..<8]"
    by (simp add: list_all_iff)
  have "length (sprite_pattern s ! nat i) = 8"
    using rws assms l by (simp add: list_all_length)
  from sprite_pixels_total [OF pal this xs]
  obtain rw' where sp: "sprite_pixels pal (bit_high attribs 6)
        (vread V (vram s) (table_base + t * 16 + ln)) (vread V (vram s) (table_base + t * 16 + 8 + ln))
        [0..<8] (sprite_pattern s ! nat i) = Some rw'" and rw': "length rw' = 8"
    by blast
  have st: "py_store (sprite_pattern s) i rw' = Some ((sprite_pattern s)[nat i := rw'])"
    using assms l by (intro py_store_nat) simp_all
  let ?s' = "s\<lparr>sprite_pattern := (sprite_pattern s)[nat i := rw'],
               sprite_bkg_priority := (sprite_bkg_priority s)[nat i := bit_high attribs 5],
               palette_cache := pc'\<rparr>"
  have "fill_sprite_latch V double_sprites table_base sprite_line (i, address) s = Some ?s'"
    unfolding fill_sprite_latch_def Let_def using a d pr tl rw sp st
    by (simp del: sprite_pixels.simps upt_Suc)
  moreover have "list_all (\<lambda>rw. length rw = 8) ((sprite_pattern s)[nat i := rw'])"
    using rws rw' set_update_subset_insert [of "sprite_pattern s" "nat i" rw']
    by (auto simp add: list_all_iff)
  then have "latches_ok ?s'"
    using assms(1) pc' unfolding latches_ok_def by simp
  ultimately show ?thesis by blast
qed

lemma fill_sprite_loop_total:
  assumes "latches_ok s" "list_all (\<lambda>(i, a). 0 \<le> i \<and> i < 8 \<and> i < int (length sprite_line)) ias"
  shows "\<exists>pc pr sp. fill_sprite_loop V double_sprites table_base sprite_line ias s
            = Some (s\<lparr>sprite_pattern := sp, sprite_bkg_priority := pr, palette_cache := pc\<rparr>)
           \<and> latches_ok (s\<lparr>sprite_pattern := sp, sprite_bkg_priority := pr, palette_cache := pc\<rparr>)"
  using assms
proof (induction ias arbitrary: s)
  case Nil
  show ?case
    using Nil.prems(1)
    by (intro exI [of _ "palette_cache s"] exI [of _ "sprite_bkg_priority s"]
          exI [of _ "sprite_pattern s"]) simp
next
  case (Cons ia ias)
  obtain i a where ia: "ia = (i, a)" by (cases ia)
  with Cons.prems have i: "0 \<le> i" "i < 8" "i < int (length sprite_line)" by simp_all
  from fill_sprite_latch_total [OF Cons.prems(1) i]
  obtain pc pr sp where
    s1: "fill_sprite_latch V double_sprites table_base sprite_line (i, a) s
          = Some (s\<lparr>sprite_pattern := sp, sprite_bkg_priority := pr, palette_cache := pc\<rparr>)"
    and ok1: "latches_ok (s\<lparr>sprite_pattern := sp, sprite_bkg_priority := pr, palette_cache := pc\<rparr>)"
    by blast
  let ?s1 = "s\<lparr>sprite_pattern := sp, sprite_bkg_priority := pr, palette_cache := pc\<rparr>"
  from Cons.prems(2) have rest: "list_all (\<lambda>(i, a). 0 \<le> i \<and> i < 8 \<and> i < int (length sprite_line)) ias"
    by simp
  from Cons.IH [OF ok1 rest]
  obtain pc' pr' sp' where
    s2: "fill_sprite_loop V double_sprites table_base sprite_line ias ?s1
          = Some (?s1\<lparr>sprite_pattern := sp', sprite_bkg_priority := pr', palette_cache := pc'\<rparr>)"
    and ok2: "latches_ok (?s1\<lparr>sprite_pattern := sp', sprite_bkg_priority := pr', palette_cache := pc'\<rparr>)"
    by blast
  have e: "?s1\<lparr>sprite_pattern := sp', sprite_bkg_priority := pr', palette_cache := pc'\<rparr>
           = s\<lparr>sprite_pattern := sp', sprite_bkg_priority := pr', palette_cache := pc'\<rparr>"
    by simp
  have "fill_sprite_loop V double_sprites table_base sprite_line (ia # ias) s
        = Some (s\<lparr>sprite_pattern := sp', sprite_bkg_priority := pr', palette_cache := pc'\<rparr>)"
    using s1 s2 ia unfolding e by simp
  moreover have "latches_ok (s\<lparr>sprite_pattern := sp', sprite_bkg_priority := pr', palette_cache := pc'\<rparr>)"
    using ok2 unfolding e .
  ultimately show ?case by blast
qed

lemma fill_sprite_latches_total:
  assumes "latches_ok s" "length act \<le> 8" "length act \<le> length sprite_line"
  shows "\<exists>pc pr sp. fill_sprite_latches V act sprite_line double_sprites s
            = Some (s\<lparr>sprite_pattern := sp, sprite_bkg_priority := pr, palette_cache := pc\<rparr>)
           \<and> latches_ok (s\<lparr>sprite_pattern := sp, sprite_bkg_priority := pr, palette_cache := pc\<rparr>)"
proof -
  have "list_all (\<lambda>(i, a). 0 \<le> i \<and> i < 8 \<and> i < int (length sprite_line))
          (zip (map int [0..<length act]) act)"
    using assms(2,3) by (auto simp add: list_all_iff in_set_zip)
  from fill_sprite_loop_total [OF assms(1) this]
  show ?thesis by (simp add: fill_sprite_latches_def)
qed


lemma prefetch_scan_eq:
  assumes "length om = 256" "length act < 9" "length sline = length act"
  shows "prefetch_scan om held ln h ns (act, sline) =
     Some (take 9 (act @ filter (\<lambda>a. om ! nat a \<le> ln \<and> ln < om ! nat a + h)
                           (map (\<lambda>n. (held + n * 4) mod 256) ns)),
           take 9 (sline @ map (\<lambda>a. ln - om ! nat a)
                           (filter (\<lambda>a. om ! nat a \<le> ln \<and> ln < om ! nat a + h)
                              (map (\<lambda>n. (held + n * 4) mod 256) ns))))"
proof -
  define P where "P = (\<lambda>a. om ! nat a \<le> ln \<and> ln < om ! nat a + h)"
  define A where "A = (\<lambda>n. (held + n * 4) mod 256)"
  define D where "D = (\<lambda>a. ln - om ! nat a)"
  have "prefetch_scan om held ln h ns (act, sline) =
     Some (take 9 (act @ filter P (map A ns)), take 9 (sline @ map D (filter P (map A ns))))"
    using assms(2,3)
  proof (induction ns arbitrary: act sline)
    case Nil
    then show ?case by simp
  next
    case (Cons n ns)
    have "0 \<le> A n" "A n < 256" by (simp_all add: A_def)
    then have ix: "py_index om (A n) = Some (om ! nat (A n))"
      using assms(1) by (intro py_index_nat) simp_all
    have step: "prefetch_scan om held ln h (n # ns) (act, sline) =
       (if P (A n)
        then (if length act \<ge> 8 then Some (act @ [A n], sline @ [D (A n)])
              else prefetch_scan om held ln h ns (act @ [A n], sline @ [D (A n)]))
        else prefetch_scan om held ln h ns (act, sline))"
      using ix by (simp add: A_def P_def D_def Let_def)
    show ?case
    proof (cases "P (A n)")
      case False
      with Cons.IH [OF Cons.prems] show ?thesis
        unfolding step by simp
    next
      case True
      show ?thesis
      proof (cases "length act \<ge> 8")
        case True
        with Cons.prems have "length act = 8" "length sline = 8" by simp_all
        with \<open>P (A n)\<close> show ?thesis unfolding step by simp
      next
        case False
        with Cons.prems have "length (act @ [A n]) < 9"
          "length (sline @ [D (A n)]) = length (act @ [A n])" by simp_all
        from Cons.IH [OF this] False \<open>P (A n)\<close> show ?thesis
          unfolding step by simp
      qed
    qed
  qed
  then show ?thesis unfolding P_def A_def D_def .
qed

lemma prefetch_active_sprites_total:
  assumes "latches_ok s"
  shows "\<exists>pc pr sp. prefetch_active_sprites V ln s
            = Some (s\<lparr>sprite_pattern := sp, sprite_bkg_priority := pr,
                      active_sprites := Some (take 8 (sprites_on_line s ln)),
                      sprite_overflow := (sprite_overflow s \<or> 9 \<le> length (sprites_on_line s ln)),
                      palette_cache := pc\<rparr>)
           \<and> latches_ok (s\<lparr>sprite_pattern := sp, sprite_bkg_priority := pr,
                      active_sprites := Some (take 8 (sprites_on_line s ln)),
                      sprite_overflow := (sprite_overflow s \<or> 9 \<le> length (sprites_on_line s ln)),
                      palette_cache := pc\<rparr>)"
proof -
  define h :: int where "h = (if (ppu_ctrl s AND 32) > 0 then 16 else 8)"
  define found where "found = sprites_on_line s ln"
  define slines where "slines = map (\<lambda>a. ln - oam s ! nat a) found"
  from assms have len: "length (oam s) = 256" by (simp add: latches_ok_def)
  have scan: "prefetch_scan (oam s) (oam_addr_held s) ln h [0..63] ([], [])
              = Some (take 9 found, take 9 slines)"
    using prefetch_scan_eq [OF len, of "[]" "[]" "oam_addr_held s" ln h "[0..63]"]
    by (simp add: found_def slines_def sprites_on_line_def h_def del: upto.simps)
  define s2 where "s2 = s\<lparr>active_sprites := Some (take 8 found),
                           sprite_overflow := (sprite_overflow s \<or> 9 \<le> length found)\<rparr>"
  have ok2: "latches_ok s2"
    using assms by (simp add: s2_def latches_ok_def)
  have "length (take 8 found) \<le> 8" "length (take 8 found) \<le> length (take 8 slines)"
    by (simp_all add: slines_def)
  from fill_sprite_latches_total [OF ok2 this, of V "(ppu_ctrl s AND 32) > 0"]
  obtain pc pr sp where
    f: "fill_sprite_latches V (take 8 found) (take 8 slines) ((ppu_ctrl s AND 32) > 0) s2
         = Some (s2\<lparr>sprite_pattern := sp, sprite_bkg_priority := pr, palette_cache := pc\<rparr>)"
    and ok: "latches_ok (s2\<lparr>sprite_pattern := sp, sprite_bkg_priority := pr, palette_cache := pc\<rparr>)"
    by blast
  have a2: "active_sprites s2 = Some (take 8 found)"
    by (simp add: s2_def)
  have pre: "prefetch_active_sprites V ln s
        = fill_sprite_latches V (take 8 found) (take 8 slines) ((ppu_ctrl s AND 32) > 0) s2"
  proof (cases "9 \<le> length found")
    case True
    then have "length (take 9 found) > 8" by simp
    moreover have "take 8 (take 9 found) = take 8 found" "take 8 (take 9 slines) = take 8 slines"
      by simp_all
    moreover have "s\<lparr>sprite_overflow := True, active_sprites := Some (take 8 found)\<rparr> = s2"
      using True by (intro NESPPU.equality) (simp_all add: s2_def)
    ultimately show ?thesis
      unfolding prefetch_active_sprites_def Let_def h_def [symmetric] scan
      by (simp add: a2)
  next
    case False
    then have "\<not> length (take 9 found) > 8" by simp
    moreover from False have "take 9 found = take 8 found" "take 9 slines = take 8 slines"
      by (simp_all add: slines_def)
    moreover have "s\<lparr>active_sprites := Some (take 8 found)\<rparr> = s2"
      using False by (intro NESPPU.equality) (simp_all add: s2_def)
    ultimately show ?thesis
      unfolding prefetch_active_sprites_def Let_def h_def [symmetric] scan
      by (simp add: a2)
  qed
  have e: "s2\<lparr>sprite_pattern := sp, sprite_bkg_priority := pr, palette_cache := pc\<rparr>
         = s\<lparr>sprite_pattern := sp, sprite_bkg_priority := pr,
              active_sprites := Some (take 8 (sprites_on_line s ln)),
              sprite_overflow := (sprite_overflow s \<or> 9 \<le> length (sprites_on_line s ln)),
              palette_cache := pc\<rparr>"
    by (intro NESPPU.equality) (simp_all add: s2_def found_def)
  show ?thesis
    using pre f ok unfolding e
    by (intro exI [of _ pc] exI [of _ pr] exI [of _ sp]) simp
qed

lemma py_index_int [simp]:
  "py_index xs (int i) = Some x \<longleftrightarrow> i < length xs \<and> x = xs ! i"
  by (auto simp add: py_index_def)




section \<open>Sprite evaluation\<close>

text \<open>
  C8. At dot 257 of a visible line \<open>L\<close> with rendering enabled, the dot returns, and the
  evaluation has scanned the 64 OAM entries in order from \<open>oam_addr_held\<close>, kept in
  first-found order the sprites with \<open>sprite_y \<le> L + 1 < sprite_y + height\<close> (height 16
  when CTRL bit 5 is set, else 8), at most eight of them, and set \<open>sprite_overflow\<close> when
  a ninth was found (the flag is otherwise left as it was).
\<close>

theorem sprite_evaluation:
  assumes "latches_ok s" "line s \<le> 239" "(ppu_mask s AND 24) > 0" "pixel s = 257"
  shows "\<exists>s'. cycle V (frame_ended, s) = Some (frame_ended, s')
      \<and> active_sprites s' = Some (take 8 (sprites_on_line s (line s + 1)))
      \<and> sprite_overflow s'
          = (sprite_overflow s \<or> 9 \<le> length (sprites_on_line s (line s + 1)))"
proof -
  from prefetch_active_sprites_total [OF assms(1), of V "line s + 1"]
  obtain pc pr sp where
    p: "prefetch_active_sprites V (line s + 1) s
         = Some (s\<lparr>sprite_pattern := sp, sprite_bkg_priority := pr,
                   active_sprites := Some (take 8 (sprites_on_line s (line s + 1))),
                   sprite_overflow := (sprite_overflow s \<or> 9 \<le> length (sprites_on_line s (line s + 1))),
                   palette_cache := pc\<rparr>)"
    by blast
  have r: "render_dot V s = prefetch_active_sprites V (line s + 1) s"
    using assms by (simp add: render_dot_def)
  show ?thesis
    unfolding cycle_def using assms(2,4)
    by (simp add: r p flag_edges_def debug_print_def advance_counters_def new_frame_def Let_def)
qed

theorem sprite_evaluation_witness:
  "latches_ok nine_sprites \<and> line nine_sprites \<le> 239 \<and> (ppu_mask nine_sprites AND 24) > 0
   \<and> pixel nine_sprites = 257
   \<and> (\<exists>s'. cycle flat_vram (False, nine_sprites) = Some (False, s')
          \<and> active_sprites s' = Some [0, 4, 8, 12, 16, 20, 24, 28]
          \<and> sprite_overflow s')"
proof -
  have h: "latches_ok nine_sprites" "line nine_sprites \<le> 239"
    "(ppu_mask nine_sprites AND 24) > 0" "pixel nine_sprites = 257"
    by code_simp+
  have f: "sprites_on_line nine_sprites (line nine_sprites + 1) = [0, 4, 8, 12, 16, 20, 24, 28, 32]"
    by code_simp
  from sprite_evaluation [OF h, of flat_vram False] h show ?thesis
    unfolding f by simp
qed

section \<open>Sprite pattern prefetch\<close>

text \<open>
  C6. With 8 by 16 sprites, bit 0 of the tile index should select the pattern table. The
  prefetch masks bit 0 off the tile index, flips on 15 and steps to the next tile from line
  8 on, but it takes the table base from CTRL bit 3 in both sprite sizes (the comment in
  \<open>decode_oam\<close> calls that bit the pattern table for 8 by 8 sprites, ignored for 8 by 16
  sprites). For a sprite with tile index 1 and CTRL bit 3 clear, the row comes from address
  0x0000, not 0x1000: a pattern byte 0xFF at 0x1000 leaves the slot transparent, and the
  same byte at 0x0000 makes it opaque.
\<close>

theorem tall_sprite_pattern_table:
  "map_option sprite_pattern
     (prefetch_active_sprites flat_vram 0 (tall_sprite (blank_vram(0x1000 := 0xFF))))
     = Some (replicate 8 (replicate 8 None))
   \<and> map_option sprite_pattern
     (prefetch_active_sprites flat_vram 0 (tall_sprite (blank_vram(0 := 0xFF))))
     = Some (replicate 8 (Some (82, 82, 82)) # replicate 7 (replicate 8 None))
   \<and> map_option active_sprites
     (prefetch_active_sprites flat_vram 0 (tall_sprite (blank_vram(0x1000 := 0xFF))))
     = Some (Some [0])"
  by code_simp

section \<open>Sprite-zero hit\<close>





lemma sprite_zero_opaque_latches [simp]:
  "sprite_zero_opaque (s\<lparr>palette := p, pattern_lo := lo, pattern_hi := hi, palette_cache := pc\<rparr>)
   = sprite_zero_opaque s"
  by (simp add: sprite_zero_opaque_def split: option.split)









end
